theory Spec2Isabelle
  imports Main
begin

section \<open>The Roomy SDK: components, entity wrappers, entity lists and reactions\<close>

text \<open>
  A shallow embedding of \<^verbatim>\<open>src/src/components.ts\<close> (the component catalog) and
  \<^verbatim>\<open>src/src/index.ts\<close> (the wrapper classes), the latest of the versions in the
  repository. Every method is a function from the store to an outcome and the store it
  leaves: a \<^verbatim>\<open>throw\<close> is the left summand, and the store that comes back with it holds
  whatever was written before the throw.

  JavaScript strings are modelled as \<^typ>\<open>string\<close>. The only character the code inspects is
  the space, which is one unit in every encoding, so nothing depends on the choice.
\<close>

subsection \<open>Components and their catalog\<close>

type_synonym entity_id = string

type_synonym peer = nat

datatype container_kind = MapKind | MarkerKind | MovableListKind | ListKind | TextKind

datatype component =
    LoroMap "(string \<times> string) list"
  | Marker
  | LoroMovableList "string list"
  | LoroList "string list"
  | LoroText string

record component_def =
  comp_id :: string
  comp_kind :: container_kind
  comp_init :: "component \<Rightarrow> component"

text \<open>
  \<^verbatim>\<open>defComponent(id, constructor, init = () => {})\<close>: the identifier, the container's
  constructor and the optional initializer, which is run once on the fresh container.
\<close>

definition defComponent :: "string \<Rightarrow> container_kind \<Rightarrow> component_def" where
  "defComponent i k = \<lparr>comp_id = i, comp_kind = k, comp_init = (\<lambda>c. c)\<rparr>"

definition defComponentInit ::
  "string \<Rightarrow> container_kind \<Rightarrow> (component \<Rightarrow> component) \<Rightarrow> component_def" where
  "defComponentInit i k f = \<lparr>comp_id = i, comp_kind = k, comp_init = f\<rparr>"

fun map_set :: "string \<Rightarrow> string \<Rightarrow> component \<Rightarrow> component" where
  "map_set k v (LoroMap fs) = LoroMap ((k, v) # filter (\<lambda>p. fst p \<noteq> k) fs)"
| "map_set k v c = c"

definition BasicMeta :: component_def where
  "BasicMeta = defComponentInit ''name:01JPE9PEBF47QJR6THNW4J4JXJ'' MapKind
     (map_set ''name'' ''Unnamed'')"

definition ReplyTo :: component_def where
  "ReplyTo = defComponent ''replyTo:01JPFR9RXR4BECAMCEH0M8XPQY'' MapKind"

definition SoftDeleted :: component_def where
  "SoftDeleted = defComponent ''softDeleted:01JPFQK63H9W2RA8Q5GQ19S1DY'' MarkerKind"

definition ImageUri :: component_def where
  "ImageUri = defComponentInit ''imageUri:01JPFRMSYWE2G0JHMS7RW478G3'' MapKind
     (map_set ''uri'' ''example:image'')"

definition Images :: component_def where
  "Images = defComponent ''spaces:01JPE97AYAJSDP0NRAH79S9792'' MovableListKind"

definition Spaces :: component_def where
  "Spaces = defComponent ''spaces:01JPE97AYAJSDP0NRAH79S9792'' MovableListKind"

definition Collection :: component_def where
  "Collection = defComponent ''collection:01JPEB6RBRYDG7CJWX74RK324E'' MovableListKind"

definition Channels :: component_def where
  "Channels = defComponent ''channels:01JPFMTA2QAFY2D3CV1C0YBZQ9'' MovableListKind"

definition Threads :: component_def where
  "Threads = defComponent ''threads:01JPEB05824ZR836QMV6B3E69F'' MovableListKind"

definition Messages :: component_def where
  "Messages = defComponent ''messages:01JPEAH76WBQ4XYZQZT7MQT19V'' MovableListKind"

definition AuthorUris :: component_def where
  "AuthorUris = defComponent ''authorUris:01JPEBV8TJ8YCXXYD156NJSR5Y'' MovableListKind"

definition Content :: component_def where
  "Content = defComponent ''content:01JPEBQARGPD0BQV7DYGC9TR5Z'' TextKind"

definition SpaceSidebarNavigation :: component_def where
  "SpaceSidebarNavigation =
     defComponent ''spaceSidebarNavigation:01JPFMBD0XT7B922PSQ7KQ99EW'' MovableListKind"

definition Admins :: component_def where
  "Admins = defComponent ''admins:01JPRKX4FVJ7GYV9AHRN12SSB2'' MovableListKind"

text \<open>Exported as \<^verbatim>\<open>Reactions\<close>; \<^verbatim>\<open>index.ts\<close> imports it as \<^verbatim>\<open>ReactionsComponent\<close>.\<close>

definition ReactionsComponent :: component_def where
  "ReactionsComponent = defComponent ''reactions:01JPFTQACDW0KM3857XWER87RR'' ListKind"

definition ChannelAnnouncement :: component_def where
  "ChannelAnnouncement =
     defComponentInit ''channelAnnouncement:01JPFTN90MGBMBCMCNJ4V65YF2'' MapKind
       (map_set ''kind'' ''unknown'')"

text \<open>The static catalog: every exported schema of \<^verbatim>\<open>components.ts\<close>, under its export name.\<close>

definition catalog :: "(string \<times> component_def) list" where
  "catalog =
     [(''BasicMeta'', BasicMeta), (''ReplyTo'', ReplyTo), (''SoftDeleted'', SoftDeleted),
      (''ImageUri'', ImageUri), (''Images'', Images), (''Spaces'', Spaces),
      (''Collection'', Collection), (''Channels'', Channels), (''Threads'', Threads),
      (''Messages'', Messages), (''AuthorUris'', AuthorUris), (''Content'', Content),
      (''SpaceSidebarNavigation'', SpaceSidebarNavigation), (''Admins'', Admins),
      (''Reactions'', ReactionsComponent), (''ChannelAnnouncement'', ChannelAnnouncement)]"

definition catalog_ids :: "string list" where
  "catalog_ids = map (\<lambda>p. comp_id (snd p)) catalog"

subsection \<open>The entity store\<close>

text \<open>
  An \<^verbatim>\<open>Entity\<close> is a shared object: two wrappers over one entity see each other's writes.
  The store maps an entity's identifier to its components, keyed by schema identifier; a
  wrapper holds the identifier. A container handed out by the entity is a live reference,
  here the address of the component.
\<close>

type_synonym store = "entity_id \<Rightarrow> string \<rightharpoonup> component"

type_synonym container_ref = "entity_id \<times> string"

text \<open>
  What a method can raise: a thrown string (\<^verbatim>\<open>throw "..."\<close>), an \<^verbatim>\<open>Error\<close> with its
  message (\<^verbatim>\<open>throw new Error("...")\<close>), the \<^verbatim>\<open>TypeError\<close> of calling what is not a
  function, and the faults of the document store: a container of the wrong kind, an index
  out of range, an entity that cannot be opened.
\<close>

datatype fault =
    Thrown string
  | Error string
  | TypeError
  | IllTyped
  | OutOfBounds
  | OpenFailed entity_id

type_synonym 'a outcome = "(fault + 'a) \<times> store"

definition return_ok :: "'a \<Rightarrow> store \<Rightarrow> 'a outcome" where
  "return_ok a s = (Inr a, s)"

definition bind :: "(store \<Rightarrow> 'a outcome) \<Rightarrow> ('a \<Rightarrow> store \<Rightarrow> 'b outcome) \<Rightarrow> store \<Rightarrow> 'b outcome" where
  "bind m k s = (case m s of (Inl f, s') \<Rightarrow> (Inl f, s') | (Inr a, s') \<Rightarrow> k a s')"

text \<open>
  Modelled from the spec: the value of a component that is materialized for the first
  time (section 4.1): the container kind's empty value, passed through the schema's
  initializer. A schema declared without one has the initializer that does nothing.
\<close>

fun empty_container :: "container_kind \<Rightarrow> component" where
  "empty_container MapKind = LoroMap []"
| "empty_container MarkerKind = Marker"
| "empty_container MovableListKind = LoroMovableList []"
| "empty_container ListKind = LoroList []"
| "empty_container TextKind = LoroText []"

definition fresh :: "component_def \<Rightarrow> component" where
  "fresh d = comp_init d (empty_container (comp_kind d))"

text \<open>
  Modelled from the spec: \<^verbatim>\<open>Entity.has\<close> of the Leaf library, which the repository
  imports and does not contain. Section 4.1 makes it the presence test, total over any
  entity; section 6 makes an entity a mapping from \<^verbatim>\<open>name:version\<close> identifiers to
  payloads, so presence is looked up under the schema's identifier.
\<close>

definition entity_has :: "entity_id \<Rightarrow> component_def \<Rightarrow> store \<Rightarrow> bool" where
  "entity_has e d s = (s e (comp_id d) \<noteq> None)"

text \<open>
  Modelled from the spec: \<^verbatim>\<open>Entity.getOrInit\<close> of the Leaf library. Section 4.1: it
  returns the existing component if present; otherwise it materializes the component with
  the schema's initializer (or the container kind's empty value if there is none) and
  returns the fresh value. It never fails.
\<close>

definition entity_getOrInit :: "entity_id \<Rightarrow> component_def \<Rightarrow> store \<Rightarrow> container_ref outcome" where
  "entity_getOrInit e d s =
     (case s e (comp_id d) of
        Some c \<Rightarrow> (Inr (e, comp_id d), s)
      | None \<Rightarrow> (Inr (e, comp_id d), s(e := (s e)(comp_id d \<mapsto> fresh d))))"

text \<open>
  The sequence a list container holds, and the container with another sequence. A
  schema of list type never yields another container (\<^verbatim>\<open>ComponentDef<L>\<close> rules it
  out); where the store holds one all the same, the list operations below stop with
  \<open>IllTyped\<close> rather than invent a behaviour.
\<close>

fun list_items :: "component \<Rightarrow> string list option" where
  "list_items (LoroMovableList xs) = Some xs"
| "list_items (LoroList xs) = Some xs"
| "list_items c = None"

fun with_items :: "string list \<Rightarrow> component \<Rightarrow> component" where
  "with_items ys (LoroMovableList xs) = LoroMovableList ys"
| "with_items ys (LoroList xs) = LoroList ys"
| "with_items ys c = c"

definition set_items :: "container_ref \<Rightarrow> string list \<Rightarrow> store \<Rightarrow> store" where
  "set_items r ys s =
     (case s (fst r) (snd r) of
        Some c \<Rightarrow> s(fst r := (s (fst r))(snd r \<mapsto> with_items ys c))
      | None \<Rightarrow> s)"

text \<open>\<^verbatim>\<open>list instanceof LoroMovableList\<close>: true of the movable list and of nothing else.\<close>

fun instanceof_LoroMovableList :: "component option \<Rightarrow> bool" where
  "instanceof_LoroMovableList (Some (LoroMovableList xs)) = True"
| "instanceof_LoroMovableList c = False"

text \<open>
  Modelled from the spec: \<^verbatim>\<open>toArray\<close> of the document store's list containers
  (section 6, to-sequence): the sequence the container holds, in its order.
\<close>

definition toArray :: "container_ref \<Rightarrow> store \<Rightarrow> string list outcome" where
  "toArray r s =
     (case Option.bind (s (fst r) (snd r)) list_items of
        Some xs \<Rightarrow> (Inr xs, s)
      | None \<Rightarrow> (Inl IllTyped, s))"

text \<open>
  Modelled from the spec: \<^verbatim>\<open>length\<close> of the document store's list containers
  (section 6): the number of entries.
\<close>

definition list_length :: "container_ref \<Rightarrow> store \<Rightarrow> nat outcome" where
  "list_length r s =
     (case Option.bind (s (fst r) (snd r)) list_items of
        Some xs \<Rightarrow> (Inr (length xs), s)
      | None \<Rightarrow> (Inl IllTyped, s))"

text \<open>
  Modelled from the spec: \<^verbatim>\<open>push\<close> of the document store's list containers
  (section 6): the value is appended at the end.
\<close>

definition push :: "container_ref \<Rightarrow> string \<Rightarrow> store \<Rightarrow> unit outcome" where
  "push r v s =
     (case Option.bind (s (fst r) (snd r)) list_items of
        Some xs \<Rightarrow> (Inr (), set_items r (xs @ [v]) s)
      | None \<Rightarrow> (Inl IllTyped, s))"

text \<open>
  Modelled from the spec: \<^verbatim>\<open>move\<close> of the document store's movable list. Section 8
  fixes it on valid indices: the entry at \<open>from\<close> ends at \<open>to\<close>, the entries between shift
  by one, and the length and the entries are kept. The spec says nothing of other indices;
  the model reports them as the store's own fault \<open>OutOfBounds\<close>.
\<close>

definition moved :: "nat \<Rightarrow> nat \<Rightarrow> 'a list \<Rightarrow> 'a list" where
  "moved i j xs =
     (let rest = take i xs @ drop (Suc i) xs
      in take j rest @ [xs ! i] @ drop j rest)"

definition list_move :: "container_ref \<Rightarrow> int \<Rightarrow> int \<Rightarrow> store \<Rightarrow> unit outcome" where
  "list_move r i j s =
     (case Option.bind (s (fst r) (snd r)) list_items of
        Some xs \<Rightarrow>
          (if 0 \<le> i \<and> i < int (length xs) \<and> 0 \<le> j \<and> j < int (length xs)
           then (Inr (), set_items r (moved (nat i) (nat j) xs) s)
           else (Inl OutOfBounds, s))
      | None \<Rightarrow> (Inl IllTyped, s))"

subsection \<open>Entity wrappers\<close>

text \<open>
  The classes that \<^verbatim>\<open>cast\<close> can target: each inherits the two-argument constructor of
  \<^verbatim>\<open>EntityWrapper\<close> unchanged (\<^verbatim>\<open>Thread\<close> is an alias of \<^verbatim>\<open>Channel\<close>;
  \<^verbatim>\<open>EntityList\<close> has a four-argument constructor and is not an \<^verbatim>\<open>EntityConstructor\<close>).
\<close>

datatype wrapper_kind =
    EntityWrapper | Deletable | Administered | NamedEntity | Roomy | Space | SidebarItem
  | Category | Channel | TimelineItem | Reactions | Message | Announcement | Image

record wrapper =
  kind :: wrapper_kind
  peer :: peer
  entity :: entity_id

text \<open>\<^verbatim>\<open>new constructor(peer, entity)\<close>: stores the two references, nothing else.\<close>

definition new_wrapper :: "wrapper_kind \<Rightarrow> peer \<Rightarrow> entity_id \<Rightarrow> wrapper" where
  "new_wrapper T p e = \<lparr>kind = T, peer = p, entity = e\<rparr>"

definition cast :: "wrapper_kind \<Rightarrow> wrapper \<Rightarrow> store \<Rightarrow> wrapper outcome" where
  "cast T this s = (Inr (new_wrapper T (peer this) (entity this)), s)"

text \<open>\<^verbatim>\<open>get id()\<close>: \<^verbatim>\<open>this.entity.id.toString()\<close>.\<close>

definition wrapper_id :: "wrapper \<Rightarrow> entity_id" where
  "wrapper_id this = entity this"

subsection \<open>Sidebar items\<close>

text \<open>\<^verbatim>\<open>get type()\<close> of \<^verbatim>\<open>SidebarItem\<close>: two presence tests, in this order, then a throw.\<close>

definition SidebarItem_type :: "wrapper \<Rightarrow> store \<Rightarrow> string outcome" where
  "SidebarItem_type this s =
     (if entity_has (entity this) Messages s then (Inr ''category'', s)
      else if entity_has (entity this) Channels s then (Inr ''channel'', s)
      else (Inl (Thrown ''Unknown sidebar item type''), s))"

text \<open>
  \<^verbatim>\<open>if (this.type == "channel") return this.cast(Channel);\<close> and otherwise the method
  falls off its end, which returns \<^verbatim>\<open>undefined\<close> (\<open>None\<close>).
\<close>

definition asChannel :: "wrapper \<Rightarrow> store \<Rightarrow> wrapper option outcome" where
  "asChannel this =
     bind (SidebarItem_type this) (\<lambda>t.
       if t = ''channel'' then bind (cast Channel this) (\<lambda>w. return_ok (Some w))
       else return_ok None)"

definition asCategory :: "wrapper \<Rightarrow> store \<Rightarrow> wrapper option outcome" where
  "asCategory this =
     bind (SidebarItem_type this) (\<lambda>t.
       if t = ''category'' then bind (cast Category this) (\<lambda>w. return_ok (Some w))
       else return_ok None)"

subsection \<open>Administered entities\<close>

text \<open>\<^verbatim>\<open>get admins()\<close>: \<^verbatim>\<open>this.entity.getOrInit(Admins)\<close>.\<close>

definition admins :: "wrapper \<Rightarrow> store \<Rightarrow> container_ref outcome" where
  "admins this = entity_getOrInit (entity this) Admins"

text \<open>
  The body of the \<^verbatim>\<open>for\<close> loop of \<^verbatim>\<open>appendAdminsFrom\<close>. \<open>currentAdmins\<close> is the array
  taken before the loop; the loop never refreshes it.
\<close>

fun appendAdminsFrom_loop :: "wrapper \<Rightarrow> string list \<Rightarrow> string list \<Rightarrow> store \<Rightarrow> unit outcome" where
  "appendAdminsFrom_loop this currentAdmins [] s = (Inr (), s)"
| "appendAdminsFrom_loop this currentAdmins (admin # rest) s =
     (if admin \<notin> set currentAdmins
      then (case bind (admins this) (\<lambda>r. push r admin) s of
              (Inl f, s') \<Rightarrow> (Inl f, s')
            | (Inr u, s') \<Rightarrow> appendAdminsFrom_loop this currentAdmins rest s')
      else appendAdminsFrom_loop this currentAdmins rest s)"

definition appendAdminsFrom :: "wrapper \<Rightarrow> wrapper \<Rightarrow> store \<Rightarrow> unit outcome" where
  "appendAdminsFrom this other =
     bind (admins this) (\<lambda>r.
     bind (toArray r) (\<lambda>currentAdmins.
     bind (admins other) (\<lambda>r'.
     bind (toArray r') (\<lambda>others.
       appendAdminsFrom_loop this currentAdmins others))))"

subsection \<open>Entity lists\<close>

record entity_list =
  el_peer :: peer
  el_entity :: entity_id
  el_def :: component_def
  el_factory :: wrapper_kind

definition new_EntityList :: "peer \<Rightarrow> entity_id \<Rightarrow> component_def \<Rightarrow> wrapper_kind \<Rightarrow> entity_list" where
  "new_EntityList p e d f = \<lparr>el_peer = p, el_entity = e, el_def = d, el_factory = f\<rparr>"

definition EntityList_ids :: "entity_list \<Rightarrow> store \<Rightarrow> string list outcome" where
  "EntityList_ids this = bind (entity_getOrInit (el_entity this) (el_def this)) toArray"

text \<open>
  \<^verbatim>\<open>items()\<close> takes the array first and only then opens each identifier through the peer.
  Modelled from the spec: \<^verbatim>\<open>Peer.open\<close> of the Leaf library is the parameter \<open>peer_open\<close>,
  which yields a handle or a fault of the document store (section 6) and works on the
  referenced entities, not on the components of the one that owns the list. The first
  rejected promise rejects \<^verbatim>\<open>Promise.all\<close>.
\<close>

fun open_all :: "(entity_id \<Rightarrow> fault + entity_id) \<Rightarrow> entity_list \<Rightarrow> entity_id list \<Rightarrow> fault + wrapper list" where
  "open_all peer_open this [] = Inr []"
| "open_all peer_open this (ent # ents) =
     (case peer_open ent of
        Inl f \<Rightarrow> Inl f
      | Inr h \<Rightarrow>
          (case open_all peer_open this ents of
             Inl f \<Rightarrow> Inl f
           | Inr ws \<Rightarrow> Inr (new_wrapper (el_factory this) (el_peer this) h # ws)))"

definition EntityList_items ::
  "(entity_id \<Rightarrow> fault + entity_id) \<Rightarrow> entity_list \<Rightarrow> store \<Rightarrow> wrapper list outcome" where
  "EntityList_items peer_open this =
     bind (entity_getOrInit (el_entity this) (el_def this)) (\<lambda>r.
     bind (toArray r) (\<lambda>ents s. (open_all peer_open this ents, s)))"

definition EntityList_push :: "entity_list \<Rightarrow> wrapper \<Rightarrow> store \<Rightarrow> unit outcome" where
  "EntityList_push this item =
     bind (entity_getOrInit (el_entity this) (el_def this)) (\<lambda>r. push r (entity item))"

definition EntityList_move :: "entity_list \<Rightarrow> int \<Rightarrow> int \<Rightarrow> store \<Rightarrow> unit outcome" where
  "EntityList_move this itemIdx newIdx =
     bind (entity_getOrInit (el_entity this) (el_def this)) (\<lambda>list s.
       if instanceof_LoroMovableList (s (fst list) (snd list))
       then list_move list itemIdx newIdx s
       else (Inl (Thrown ''Cannot use move function in an immovable list.''), s))"

definition EntityList_rawList :: "entity_list \<Rightarrow> store \<Rightarrow> container_ref outcome" where
  "EntityList_rawList this = entity_getOrInit (el_entity this) (el_def this)"

definition EntityList_length :: "entity_list \<Rightarrow> store \<Rightarrow> nat outcome" where
  "EntityList_length this = bind (entity_getOrInit (el_entity this) (el_def this)) list_length"

text \<open>\<^verbatim>\<open>get spaces()\<close> of \<^verbatim>\<open>Roomy\<close> and \<^verbatim>\<open>get images()\<close> of \<^verbatim>\<open>Message\<close>.\<close>

definition Roomy_spaces :: "wrapper \<Rightarrow> entity_list" where
  "Roomy_spaces this = new_EntityList (peer this) (entity this) Spaces Space"

definition Message_images :: "wrapper \<Rightarrow> entity_list" where
  "Message_images this = new_EntityList (peer this) (entity this) Images Image"

subsection \<open>Reactions\<close>

text \<open>\<^verbatim>\<open>str.includes(" ")\<close>: the needle is the one-character string holding a space.\<close>

definition includes_space :: "string \<Rightarrow> bool" where
  "includes_space str = (CHR '' '' \<in> set str)"

text \<open>
  \<^verbatim>\<open>raw.split(" ")\<close> cuts at every space and keeps empty pieces; the result is never
  empty (the empty string gives one empty piece).
\<close>

fun split_space :: "string \<Rightarrow> string list" where
  "split_space [] = [[]]"
| "split_space (c # cs) =
     (if c = CHR '' '' then [] # split_space cs
      else (c # hd (split_space cs)) # tl (split_space cs))"

text \<open>
  \<^verbatim>\<open>const [reaction, user] = raw.split(" ")\<close>: the first two pieces; \<open>user\<close> is
  \<^verbatim>\<open>undefined\<close> (\<open>None\<close>) when there is one piece only, and further pieces are dropped.
\<close>

definition destructure :: "string \<Rightarrow> string \<times> string option" where
  "destructure raw =
     (case split_space raw of
        reaction # user # pieces \<Rightarrow> (reaction, Some user)
      | [reaction] \<Rightarrow> (reaction, None)
      | [] \<Rightarrow> ([], None))"

text \<open>
  The loop of \<^verbatim>\<open>all()\<close>. \<open>reactions\<close> starts as the object literal \<^verbatim>\<open>{}\<close>, so
  \<^verbatim>\<open>reactions[reaction]\<close> also answers for the property names a plain object inherits
  (\<^verbatim>\<open>constructor\<close>, \<^verbatim>\<open>toString\<close>, ...): these are truthy, no set is stored, and the call
  of \<^verbatim>\<open>.add\<close> on them is a \<^verbatim>\<open>TypeError\<close>. Which names are inherited depends on the
  JavaScript runtime; they are the parameter \<open>inherited\<close>.
\<close>

fun all_loop ::
  "string set \<Rightarrow> (string \<rightharpoonup> string option set) \<Rightarrow> string list \<Rightarrow> fault + (string \<rightharpoonup> string option set)" where
  "all_loop inherited reactions [] = Inr reactions"
| "all_loop inherited reactions (raw # rest) =
     (case destructure raw of (reaction, user) \<Rightarrow>
        (case reactions reaction of
           Some users \<Rightarrow> all_loop inherited (reactions(reaction \<mapsto> insert user users)) rest
         | None \<Rightarrow>
             if reaction \<in> inherited then Inl TypeError
             else all_loop inherited (reactions(reaction \<mapsto> {user})) rest))"

definition Reactions_all ::
  "string set \<Rightarrow> wrapper \<Rightarrow> store \<Rightarrow> (string \<rightharpoonup> string option set) outcome" where
  "Reactions_all inherited this =
     bind (entity_getOrInit (entity this) ReactionsComponent) (\<lambda>r.
     bind (toArray r) (\<lambda>list s. (all_loop inherited Map.empty list, s)))"

definition Reactions_add :: "string \<Rightarrow> string \<Rightarrow> wrapper \<Rightarrow> store \<Rightarrow> unit outcome" where
  "Reactions_add reaction authorId this s =
     (if includes_space reaction \<or> includes_space authorId
      then (Inl (Error ''Reaction and Author ID must not contain spaces.''), s)
      else
        (let raw = reaction @ '' '' @ authorId in
         bind (entity_getOrInit (entity this) ReactionsComponent) (\<lambda>component.
         bind (toArray component) (\<lambda>list.
           if raw \<notin> set list then push component raw else return_ok ())) s))"

text \<open>A sequence of \<^verbatim>\<open>add\<close> calls on one wrapper; a call that throws is caught and the next one runs.\<close>

fun add_all :: "(string \<times> string) list \<Rightarrow> wrapper \<Rightarrow> store \<Rightarrow> store" where
  "add_all [] this s = s"
| "add_all ((reaction, authorId) # calls) this s =
     add_all calls this (snd (Reactions_add reaction authorId this s))"

subsection \<open>Notions used to state the properties\<close>

text \<open>
  The component \<^verbatim>\<open>getOrInit\<close> hands out for a schema: the stored one, or the fresh one it
  is about to store. The backing list of a schema is the sequence that component holds.
\<close>

definition backing :: "store \<Rightarrow> entity_id \<Rightarrow> component_def \<Rightarrow> component" where
  "backing s e d = (case s e (comp_id d) of Some c \<Rightarrow> c | None \<Rightarrow> fresh d)"

definition backing_items :: "store \<Rightarrow> entity_id \<Rightarrow> component_def \<Rightarrow> string list option" where
  "backing_items s e d = list_items (backing s e d)"

text \<open>The store once the schema's component is on the entity.\<close>

definition materialized :: "entity_id \<Rightarrow> component_def \<Rightarrow> store \<Rightarrow> store" where
  "materialized e d s = s(e := (s e)(comp_id d \<mapsto> backing s e d))"

text \<open>
  Grouping the decoded entries: a symbol is a key when some entry decodes to it, and its
  value is the set of the actors of these entries.
\<close>

definition grouped ::
  "(string \<Rightarrow> string \<times> string option) \<Rightarrow> string list \<Rightarrow> string \<rightharpoonup> string option set" where
  "grouped decode list k =
     (let users = map snd (filter (\<lambda>p. fst p = k) (map decode list))
      in if users = [] then None else Some (set users))"

text \<open>
  The decoding in the words of the specification, for comparison with \<open>destructure\<close>:
  an entry is split at its first space, the symbol before it and the actor all that
  follows it.
\<close>

definition split_at_first_space :: "string \<Rightarrow> string \<times> string option" where
  "split_at_first_space raw =
     (takeWhile (\<lambda>c. c \<noteq> CHR '' '') raw,
      case dropWhile (\<lambda>c. c \<noteq> CHR '' '') raw of [] \<Rightarrow> None | c # rest \<Rightarrow> Some rest)"

definition actors_reported :: "(string \<rightharpoonup> string option set) outcome \<Rightarrow> string \<Rightarrow> string option set option" where
  "actors_reported out k = (case fst out of Inr m \<Rightarrow> m k | Inl f \<Rightarrow> None)"

text \<open>
  A well-formed reactions list: every entry is the encoding of a pair of space-free
  strings (it has exactly one space, so it splits in two pieces), and no entry occurs twice.
\<close>

definition well_formed :: "string list \<Rightarrow> bool" where
  "well_formed list = (distinct list \<and> list_all (\<lambda>raw. length (split_space raw) = 2) list)"

text \<open>The number of entries of a list that stand for the pair of a symbol and an actor.\<close>

definition entries_for :: "string \<Rightarrow> string \<Rightarrow> string list \<Rightarrow> nat" where
  "entries_for reaction authorId list =
     length (filter (\<lambda>raw. destructure raw = (reaction, Some authorId)) list)"

text \<open>The first occurrences of a list, in order: what a union into an ordered list adds.\<close>

fun first_occurrences :: "'a list \<Rightarrow> 'a list" where
  "first_occurrences [] = []"
| "first_occurrences (x # xs) = x # filter (\<lambda>y. y \<noteq> x) (first_occurrences xs)"

text \<open>The store in which no entity has any component.\<close>

definition no_components :: store where
  "no_components = (\<lambda>e. Map.empty)"

section \<open>Properties\<close>

subsection \<open>The entity and its containers\<close>

lemma getOrInit_eq:
  "entity_getOrInit e d s = (Inr (e, comp_id d), materialized e d s)"
  by (auto simp: entity_getOrInit_def materialized_def backing_def fun_eq_iff split: option.splits)

lemma materialized_at [simp]:
  "materialized e d s e (comp_id d) = Some (backing s e d)"
  by (simp add: materialized_def)

lemma materialized_present:
  "s e (comp_id d) = Some c \<Longrightarrow> materialized e d s = s"
  by (auto simp: materialized_def backing_def fun_eq_iff)

lemma materialized_has: "entity_has e d (materialized e d s)"
  by (simp add: entity_has_def)

lemma backing_materialized [simp]:
  "backing (materialized e d s) e d = backing s e d"
  by (simp add: backing_def)

lemma backing_update:
  "backing (s(e := (s e)(comp_id d \<mapsto> c))) e d = c"
  by (simp add: backing_def)

lemma list_items_with_items:
  "list_items c = Some xs \<Longrightarrow> list_items (with_items ys c) = Some ys"
  by (cases c) auto

lemma with_items_same:
  "list_items c = Some xs \<Longrightarrow> with_items xs c = c"
  by (cases c) auto

lemma with_items_twice [simp]: "with_items ys (with_items xs c) = with_items ys c"
  by (cases c) auto

lemma set_items_present:
  "s e c = Some cp \<Longrightarrow> set_items (e, c) ys s = s(e := (s e)(c \<mapsto> with_items ys cp))"
  by (simp add: set_items_def)

lemma push_materialized:
  "backing_items s e d = Some xs \<Longrightarrow>
   push (e, comp_id d) v (materialized e d s) =
     (Inr (), set_items (e, comp_id d) (xs @ [v]) (materialized e d s))"
  by (simp add: push_def backing_items_def)

lemma backing_items_set_items:
  "backing_items s e d = Some xs \<Longrightarrow>
   backing_items (set_items (e, comp_id d) ys (materialized e d s)) e d = Some ys"
  by (simp add: backing_items_def set_items_def backing_def list_items_with_items)

lemma member_backing_present:
  "backing_items s e d = Some xs \<Longrightarrow> list_items (fresh d) = Some [] \<Longrightarrow> x \<in> set xs \<Longrightarrow>
   materialized e d s = s"
  by (cases "s e (comp_id d)") (auto simp: backing_items_def backing_def materialized_present)

lemma fresh_Reactions: "fresh ReactionsComponent = LoroList []"
  by (simp add: fresh_def ReactionsComponent_def defComponent_def)

lemma fresh_list_schema:
  "comp_init d = (\<lambda>c. c) \<Longrightarrow> comp_kind d = MovableListKind \<or> comp_kind d = ListKind \<Longrightarrow>
   list_items (fresh d) = Some []"
  by (auto simp: fresh_def)

subsection \<open>Casting\<close>

text \<open>
  C1. For every wrapper over any entity and any connection, and every wrapper kind \<open>T\<close>,
  \<open>cast T\<close> returns a wrapper (it never raises), leaves the store as it found it, and the
  wrapper it returns is of kind \<open>T\<close>, on the same connection, with the same entity and
  therefore the same \<open>id\<close>. No component of the entity is consulted.
\<close>

theorem cast_always_succeeds:
  "\<exists>w'. cast T w s = (Inr w', s) \<and> wrapper_id w' = wrapper_id w \<and> entity w' = entity w
      \<and> peer w' = peer w \<and> kind w' = T"
  by (simp add: cast_def new_wrapper_def wrapper_id_def)

subsection \<open>Sidebar discrimination\<close>

text \<open>
  C5. For every \<open>SidebarItem\<close>, the \<open>type\<close> accessor returns \<open>category\<close> when the entity
  has the \<open>Messages\<close> component, otherwise \<open>channel\<close> when it has the \<open>Channels\<close>
  component, and otherwise throws \<open>Unknown sidebar item type\<close>; it writes nothing. The
  result is a function of which components are present: two entities with the same
  component membership, whatever the components hold, get the same answer.
\<close>

theorem SidebarItem_type_by_presence:
  "SidebarItem_type w s =
     ((if entity_has (entity w) Messages s then Inr ''category''
       else if entity_has (entity w) Channels s then Inr ''channel''
       else Inl (Thrown ''Unknown sidebar item type'')), s)
   \<and> (dom (s (entity w)) = dom (s' (entity w')) \<longrightarrow>
        fst (SidebarItem_type w s) = fst (SidebarItem_type w' s'))"
proof -
  have has_dom: "entity_has e d t = (comp_id d \<in> dom (t e))" for e d t
    by (auto simp: entity_has_def)
  show ?thesis
    by (simp add: SidebarItem_type_def has_dom)
qed

text \<open>
  Two entities that both hold a \<open>Messages\<close> component, one with a message and one
  without: the same membership, and both are a \<open>category\<close>.
\<close>

theorem SidebarItem_type_by_presence_witness:
  "dom ((no_components(''e1'' := [comp_id Messages \<mapsto> LoroMovableList [''m'']],
                       ''e2'' := [comp_id Messages \<mapsto> LoroMovableList []])) ''e1'')
   = dom ((no_components(''e1'' := [comp_id Messages \<mapsto> LoroMovableList [''m'']],
                         ''e2'' := [comp_id Messages \<mapsto> LoroMovableList []])) ''e2'')
   \<and> fst (SidebarItem_type \<lparr>kind = SidebarItem, peer = 0, entity = ''e1''\<rparr>
          (no_components(''e1'' := [comp_id Messages \<mapsto> LoroMovableList [''m'']],
                         ''e2'' := [comp_id Messages \<mapsto> LoroMovableList []])))
     = fst (SidebarItem_type \<lparr>kind = SidebarItem, peer = 0, entity = ''e2''\<rparr>
          (no_components(''e1'' := [comp_id Messages \<mapsto> LoroMovableList [''m'']],
                         ''e2'' := [comp_id Messages \<mapsto> LoroMovableList []])))
   \<and> fst (SidebarItem_type \<lparr>kind = SidebarItem, peer = 0, entity = ''e1''\<rparr>
          (no_components(''e1'' := [comp_id Messages \<mapsto> LoroMovableList [''m'']],
                         ''e2'' := [comp_id Messages \<mapsto> LoroMovableList []])))
     = Inr ''category''"
  using SidebarItem_type_by_presence
    [of "\<lparr>kind = SidebarItem, peer = 0, entity = ''e1''\<rparr>"
        "no_components(''e1'' := [comp_id Messages \<mapsto> LoroMovableList [''m'']],
                       ''e2'' := [comp_id Messages \<mapsto> LoroMovableList []])"
        "no_components(''e1'' := [comp_id Messages \<mapsto> LoroMovableList [''m'']],
                       ''e2'' := [comp_id Messages \<mapsto> LoroMovableList []])"
        "\<lparr>kind = SidebarItem, peer = 0, entity = ''e2''\<rparr>"]
  by (auto simp: entity_has_def no_components_def)

lemma as_casts_with_discriminant:
  assumes "SidebarItem_type w s = (Inr t, s)"
  shows "asChannel w s =
           (Inr (if t = ''channel'' then Some (new_wrapper Channel (peer w) (entity w)) else None), s)"
    and "asCategory w s =
           (Inr (if t = ''category'' then Some (new_wrapper Category (peer w) (entity w)) else None), s)"
  using assms by (simp_all add: asChannel_def asCategory_def bind_def cast_def return_ok_def)

text \<open>
  C6. The claim asks that \<open>asChannel\<close> and \<open>asCategory\<close> return the empty result and
  never raise when the discriminant does not match, also on an entity with neither the
  \<open>Messages\<close> nor the \<open>Channels\<close> component. Both read \<open>type\<close> first, and on such an
  entity \<open>type\<close> throws: the throw of \<open>Unknown sidebar item type\<close> comes out of
  \<open>asChannel\<close> and of \<open>asCategory\<close>.
\<close>

theorem as_casts_raise_without_discriminant:
  "asChannel \<lparr>kind = SidebarItem, peer = 0, entity = ''e''\<rparr> no_components
     = (Inl (Thrown ''Unknown sidebar item type''), no_components)
   \<and> asCategory \<lparr>kind = SidebarItem, peer = 0, entity = ''e''\<rparr> no_components
     = (Inl (Thrown ''Unknown sidebar item type''), no_components)"
  by (simp add: asChannel_def asCategory_def bind_def SidebarItem_type_def entity_has_def
      no_components_def)

subsection \<open>Entity lists\<close>

lemma ids_eq:
  "EntityList_ids L s =
     ((case backing_items s (el_entity L) (el_def L) of
         Some xs \<Rightarrow> Inr xs
       | None \<Rightarrow> Inl IllTyped),
      materialized (el_entity L) (el_def L) s)"
  by (simp add: EntityList_ids_def bind_def getOrInit_eq toArray_def backing_items_def
      split: option.splits)

lemma length_eq:
  "EntityList_length L s =
     ((case backing_items s (el_entity L) (el_def L) of
         Some xs \<Rightarrow> Inr (length xs)
       | None \<Rightarrow> Inl IllTyped),
      materialized (el_entity L) (el_def L) s)"
  by (simp add: EntityList_length_def bind_def getOrInit_eq list_length_def backing_items_def
      split: option.splits)

lemma items_snd:
  "snd (EntityList_items peer_open L s) = materialized (el_entity L) (el_def L) s"
  by (simp add: EntityList_items_def bind_def getOrInit_eq toArray_def split: option.splits)

lemma move_eq:
  "EntityList_move L i j s =
     (if instanceof_LoroMovableList (Some (backing s (el_entity L) (el_def L)))
      then list_move (el_entity L, comp_id (el_def L)) i j (materialized (el_entity L) (el_def L) s)
      else (Inl (Thrown ''Cannot use move function in an immovable list.''),
            materialized (el_entity L) (el_def L) s))"
  by (simp add: EntityList_move_def bind_def getOrInit_eq)

lemma list_move_fault:
  "fst (list_move r i j s) \<noteq> Inl (Thrown msg)"
  by (simp add: list_move_def split: option.splits)

text \<open>
  C9. For every \<open>EntityList\<close> whose backing container is the non-reorderable list, every
  call of \<open>move\<close>, whatever the two indices, throws
  \<open>Cannot use move function in an immovable list.\<close> and leaves the list as it was: the
  container still holds the same sequence and \<open>ids\<close> answers as before (the only write
  is the one \<open>getOrInit\<close> makes when the component was absent). Over a reorderable
  container \<open>move\<close> hands the call to the container's own move and its outcome is never
  this throw.
\<close>

theorem EntityList_move_immovable_raises:
  "(backing s (el_entity L) (el_def L) = LoroList xs \<longrightarrow>
      EntityList_move L i j s =
        (Inl (Thrown ''Cannot use move function in an immovable list.''),
         materialized (el_entity L) (el_def L) s)
      \<and> backing (snd (EntityList_move L i j s)) (el_entity L) (el_def L) = LoroList xs
      \<and> fst (EntityList_ids L (snd (EntityList_move L i j s))) = fst (EntityList_ids L s))
   \<and> (backing s (el_entity L) (el_def L) = LoroMovableList xs \<longrightarrow>
      EntityList_move L i j s =
        list_move (el_entity L, comp_id (el_def L)) i j (materialized (el_entity L) (el_def L) s)
      \<and> fst (EntityList_move L i j s)
          \<noteq> Inl (Thrown ''Cannot use move function in an immovable list.''))"
  by (simp add: move_eq list_move_fault ids_eq backing_items_def)

text \<open>
  A list over the \<open>Reactions\<close> schema, the one immovable list of the catalog, and a list
  over \<open>Spaces\<close>, both holding \<open>a, b\<close>: the first refuses to move, the second swaps.
\<close>

theorem EntityList_move_immovable_raises_witness:
  "backing (no_components(''e'' := [comp_id ReactionsComponent \<mapsto> LoroList [''a'', ''b'']]))
      ''e'' ReactionsComponent = LoroList [''a'', ''b'']
   \<and> EntityList_move (new_EntityList 0 ''e'' ReactionsComponent Message) 0 1
        (no_components(''e'' := [comp_id ReactionsComponent \<mapsto> LoroList [''a'', ''b'']]))
      = (Inl (Thrown ''Cannot use move function in an immovable list.''),
         no_components(''e'' := [comp_id ReactionsComponent \<mapsto> LoroList [''a'', ''b'']]))
   \<and> backing (no_components(''e'' := [comp_id Spaces \<mapsto> LoroMovableList [''a'', ''b'']]))
      ''e'' Spaces = LoroMovableList [''a'', ''b'']
   \<and> fst (EntityList_move (new_EntityList 0 ''e'' Spaces Space) 0 1
        (no_components(''e'' := [comp_id Spaces \<mapsto> LoroMovableList [''a'', ''b'']])))
      \<noteq> Inl (Thrown ''Cannot use move function in an immovable list.'')
   \<and> EntityList_move (new_EntityList 0 ''e'' Spaces Space) 0 1
        (no_components(''e'' := [comp_id Spaces \<mapsto> LoroMovableList [''a'', ''b'']]))
      = (Inr (), no_components(''e'' := [comp_id Spaces \<mapsto> LoroMovableList [''b'', ''a'']]))"
  using EntityList_move_immovable_raises
    [of "no_components(''e'' := [comp_id ReactionsComponent \<mapsto> LoroList [''a'', ''b'']])"
        "new_EntityList 0 ''e'' ReactionsComponent Message" "[''a'', ''b'']" 0 1]
    EntityList_move_immovable_raises
    [of "no_components(''e'' := [comp_id Spaces \<mapsto> LoroMovableList [''a'', ''b'']])"
        "new_EntityList 0 ''e'' Spaces Space" "[''a'', ''b'']" 0 1]
  by (simp add: new_EntityList_def backing_def materialized_def map_upd_triv list_move_fault
      list_move_def set_items_def moved_def)

text \<open>
  C10. Each read accessor of an \<open>EntityList\<close> (\<open>ids\<close>, \<open>length\<close>, \<open>items\<close> and
  \<open>rawList\<close>) leaves the store with the list's component on the owning entity: the store
  after the read is the store before it with the component materialized, whatever the
  read returns. When the component was absent it now is the schema's fresh value, so the
  store has changed; for a list schema declared without an initializer, as every list
  schema of the catalog is, that value is the empty list.
\<close>

theorem EntityList_reads_materialize:
  "snd (EntityList_ids L s) = materialized (el_entity L) (el_def L) s
   \<and> snd (EntityList_length L s) = materialized (el_entity L) (el_def L) s
   \<and> snd (EntityList_items peer_open L s) = materialized (el_entity L) (el_def L) s
   \<and> EntityList_rawList L s =
       (Inr (el_entity L, comp_id (el_def L)), materialized (el_entity L) (el_def L) s)
   \<and> entity_has (el_entity L) (el_def L) (materialized (el_entity L) (el_def L) s)
   \<and> (\<not> entity_has (el_entity L) (el_def L) s \<longrightarrow>
        materialized (el_entity L) (el_def L) s (el_entity L) (comp_id (el_def L))
          = Some (fresh (el_def L))
        \<and> materialized (el_entity L) (el_def L) s \<noteq> s)
   \<and> (comp_init (el_def L) = (\<lambda>c. c)
        \<and> (comp_kind (el_def L) = MovableListKind \<or> comp_kind (el_def L) = ListKind)
        \<longrightarrow> list_items (fresh (el_def L)) = Some [])"
proof -
  have changed: "materialized (el_entity L) (el_def L) s \<noteq> s"
    if "\<not> entity_has (el_entity L) (el_def L) s"
  proof
    assume "materialized (el_entity L) (el_def L) s = s"
    then have "entity_has (el_entity L) (el_def L) s"
      using materialized_has[of "el_entity L" "el_def L" s] by simp
    with that show False by simp
  qed
  have value_new:
    "materialized (el_entity L) (el_def L) s (el_entity L) (comp_id (el_def L))
       = Some (fresh (el_def L))"
    if "\<not> entity_has (el_entity L) (el_def L) s"
    using that by (simp add: entity_has_def backing_def)
  show ?thesis
    using changed value_new
    by (simp add: ids_eq length_eq items_snd EntityList_rawList_def getOrInit_eq
        materialized_has fresh_list_schema)
qed

text \<open>
  The list of spaces of a catalog entity that has no component yet: asking for its
  \<open>ids\<close> answers the empty sequence and leaves the \<open>Spaces\<close> component on the entity.
\<close>

theorem EntityList_reads_materialize_witness:
  "\<not> entity_has ''cat'' Spaces no_components
   \<and> EntityList_ids (Roomy_spaces \<lparr>kind = Roomy, peer = 0, entity = ''cat''\<rparr>) no_components
       = (Inr [], no_components(''cat'' := [comp_id Spaces \<mapsto> LoroMovableList []]))
   \<and> entity_has ''cat'' Spaces
        (snd (EntityList_ids (Roomy_spaces \<lparr>kind = Roomy, peer = 0, entity = ''cat''\<rparr>) no_components))
   \<and> snd (EntityList_length (Roomy_spaces \<lparr>kind = Roomy, peer = 0, entity = ''cat''\<rparr>) no_components)
       \<noteq> no_components
   \<and> comp_init Spaces = (\<lambda>c. c) \<and> comp_kind Spaces = MovableListKind
   \<and> list_items (fresh Spaces) = Some []"
  using EntityList_reads_materialize
    [of "Roomy_spaces \<lparr>kind = Roomy, peer = 0, entity = ''cat''\<rparr>" no_components Inr]
  by (simp add: Roomy_spaces_def new_EntityList_def ids_eq backing_items_def backing_def
      materialized_def fresh_def Spaces_def defComponent_def entity_has_def no_components_def)

subsection \<open>Reactions: adding\<close>

lemma Reactions_add_eq:
  assumes "backing_items s (entity w) ReactionsComponent = Some xs"
  shows "Reactions_add r a w s =
     (if includes_space r \<or> includes_space a
      then (Inl (Error ''Reaction and Author ID must not contain spaces.''), s)
      else if r @ '' '' @ a \<in> set xs then (Inr (), s)
      else (Inr (), set_items (entity w, comp_id ReactionsComponent) (xs @ [r @ '' '' @ a])
                      (materialized (entity w) ReactionsComponent s)))"
proof -
  have toA: "toArray (entity w, comp_id ReactionsComponent) (materialized (entity w) ReactionsComponent s)
      = (Inr xs, materialized (entity w) ReactionsComponent s)"
    using assms by (simp add: toArray_def backing_items_def)
  have same: "materialized (entity w) ReactionsComponent s = s" if "r @ '' '' @ a \<in> set xs"
    using member_backing_present[OF assms _ that] by (simp add: fresh_Reactions)
  show ?thesis
    using same
    by (simp add: Reactions_add_def bind_def getOrInit_eq toA push_materialized[OF assms]
        return_ok_def Let_def)
qed

text \<open>
  C3. On an entity whose reactions component is a list (or absent, in which case the
  fresh one is the empty list), \<open>Reactions.add\<close> raises if and only if the symbol or the
  actor contains a space, and a call that raises leaves the whole store, hence the backing
  list, exactly as it was: not even the component is materialized.
\<close>

theorem Reactions_add_raises_iff_space:
  assumes "backing_items s (entity w) ReactionsComponent = Some xs"
  shows "((\<exists>f. fst (Reactions_add r a w s) = Inl f) = (includes_space r \<or> includes_space a))
     \<and> (\<forall>f. fst (Reactions_add r a w s) = Inl f \<longrightarrow> snd (Reactions_add r a w s) = s)"
  by (simp add: Reactions_add_eq[OF assms])

text \<open>A symbol with a space in it, on a message that holds one reaction.\<close>

theorem Reactions_add_raises_iff_space_witness:
  "backing_items (no_components(''msg'' := [comp_id ReactionsComponent \<mapsto> LoroList [''+1 did:a'']]))
       ''msg'' ReactionsComponent = Some [''+1 did:a'']
   \<and> includes_space ''+1 x''
   \<and> (\<exists>f. fst (Reactions_add ''+1 x'' ''did:a'' \<lparr>kind = Reactions, peer = 0, entity = ''msg''\<rparr>
          (no_components(''msg'' := [comp_id ReactionsComponent \<mapsto> LoroList [''+1 did:a'']]))) = Inl f)
   \<and> snd (Reactions_add ''+1 x'' ''did:a'' \<lparr>kind = Reactions, peer = 0, entity = ''msg''\<rparr>
          (no_components(''msg'' := [comp_id ReactionsComponent \<mapsto> LoroList [''+1 did:a'']])))
       = no_components(''msg'' := [comp_id ReactionsComponent \<mapsto> LoroList [''+1 did:a'']])"
proof -
  have b: "backing_items (no_components(''msg'' := [comp_id ReactionsComponent \<mapsto> LoroList [''+1 did:a'']]))
       (entity \<lparr>kind = Reactions, peer = 0, entity = ''msg''\<rparr>) ReactionsComponent = Some [''+1 did:a'']"
    by (simp add: backing_items_def backing_def)
  have i: "includes_space ''+1 x''"
    by (simp add: includes_space_def)
  show ?thesis
    using b i Reactions_add_raises_iff_space[OF b, of "''+1 x''" "''did:a''"]
    by auto
qed

lemma split_space_nonempty [simp]: "split_space s \<noteq> []"
  by (induction s) auto

lemma split_space_free: "\<not> includes_space s \<Longrightarrow> split_space s = [s]"
  by (induction s) (auto simp: includes_space_def)

lemma split_space_append:
  "\<not> includes_space r \<Longrightarrow> split_space (r @ CHR '' '' # rest) = r # split_space rest"
  by (induction r) (auto simp: includes_space_def)

lemma split_space_encoded:
  "\<not> includes_space r \<Longrightarrow> \<not> includes_space a \<Longrightarrow> split_space (r @ '' '' @ a) = [r, a]"
  by (simp add: split_space_append split_space_free)

lemma split_space_single: "split_space cs = [a] \<Longrightarrow> cs = a"
proof (induction cs arbitrary: a)
  case Nil
  then show ?case by simp
next
  case (Cons c cs)
  show ?case
  proof (cases "c = CHR '' ''")
    case True
    with Cons.prems show ?thesis by simp
  next
    case False
    with Cons.prems have a: "a = c # hd (split_space cs)" and t: "tl (split_space cs) = []"
      by auto
    from t have "split_space cs = [hd (split_space cs)]"
      by (cases "split_space cs") auto
    then have "cs = hd (split_space cs)" by (rule Cons.IH)
    with a show ?thesis by simp
  qed
qed

lemma split_space_pair: "split_space raw = [r, a] \<Longrightarrow> raw = r @ CHR '' '' # a"
proof (induction raw arbitrary: r)
  case Nil
  then show ?case by simp
next
  case (Cons c cs)
  show ?case
  proof (cases "c = CHR '' ''")
    case True
    with Cons.prems have "r = []" and "split_space cs = [a]" by auto
    then show ?thesis using True split_space_single by auto
  next
    case False
    with Cons.prems have r: "r = c # hd (split_space cs)" and t: "tl (split_space cs) = [a]"
      by auto
    from t have "split_space cs = [hd (split_space cs), a]"
      by (cases "split_space cs") auto
    then have "cs = hd (split_space cs) @ CHR '' '' # a" by (rule Cons.IH)
    with r show ?thesis by simp
  qed
qed

lemma destructure_pair:
  assumes len: "length (split_space raw) = 2" and d: "destructure raw = (r, Some a)"
  shows "raw = r @ CHR '' '' # a"
proof -
  from len obtain p q where pq: "split_space raw = [p, q]"
    by (cases "split_space raw"; cases "tl (split_space raw)") auto
  with d have "p = r" "q = a" by (auto simp: destructure_def)
  with pq show ?thesis using split_space_pair by blast
qed

lemma filter_at_most_one:
  "distinct xs \<Longrightarrow> (\<And>x. x \<in> set xs \<Longrightarrow> P x \<Longrightarrow> x = v) \<Longrightarrow> length (filter P xs) \<le> 1"
proof (induction xs)
  case Nil
  then show ?case by simp
next
  case (Cons x xs)
  show ?case
  proof (cases "P x")
    case True
    then have "x = v" using Cons.prems(2) by simp
    have "filter P xs = []"
    proof (rule ccontr)
      assume "filter P xs \<noteq> []"
      then obtain y where "y \<in> set xs" "P y" by (auto simp: filter_empty_conv)
      then have "y = v" using Cons.prems(2) by simp
      with \<open>x = v\<close> \<open>y \<in> set xs\<close> Cons.prems(1) show False by simp
    qed
    then show ?thesis using True by simp
  next
    case False
    then show ?thesis using Cons by simp
  qed
qed

lemma well_formed_entries_for: "well_formed ys \<Longrightarrow> entries_for r a ys \<le> 1"
  unfolding entries_for_def well_formed_def
  by (rule filter_at_most_one[where v = "r @ CHR '' '' # a"])
     (auto simp: list_all_iff intro: destructure_pair)

lemma well_formed_snoc:
  "well_formed xs \<Longrightarrow> \<not> includes_space r \<Longrightarrow> \<not> includes_space a \<Longrightarrow> r @ CHR '' '' # a \<notin> set xs \<Longrightarrow>
   well_formed (xs @ [r @ CHR '' '' # a])"
  using split_space_encoded[of r a] by (simp add: well_formed_def)

lemma Reactions_add_well_formed:
  assumes "backing_items s (entity w) ReactionsComponent = Some xs" "well_formed xs"
  shows "\<exists>ys. backing_items (snd (Reactions_add r a w s)) (entity w) ReactionsComponent = Some ys
           \<and> well_formed ys"
  using assms
  by (auto simp: Reactions_add_eq[OF assms(1)] backing_items_set_items well_formed_snoc)

lemma add_all_well_formed:
  "backing_items s (entity w) ReactionsComponent = Some xs \<Longrightarrow> well_formed xs \<Longrightarrow>
   \<exists>ys. backing_items (add_all calls w s) (entity w) ReactionsComponent = Some ys \<and> well_formed ys"
proof (induction calls arbitrary: s xs)
  case Nil
  then show ?case by auto
next
  case (Cons call calls)
  obtain r a where call: "call = (r, a)" by (cases call)
  from Reactions_add_well_formed[OF Cons.prems, of r a]
  obtain ys where "backing_items (snd (Reactions_add r a w s)) (entity w) ReactionsComponent = Some ys"
    and "well_formed ys" by blast
  from Cons.IH[OF this] show ?case by (simp add: call)
qed

text \<open>
  C4. On an entity whose reactions component is a list holding \<open>xs\<close> (or absent), and for
  a symbol and an actor without spaces: when the encoded entry \<open>symbol actor\<close> is not in
  \<open>xs\<close>, \<open>add\<close> returns and the backing list is \<open>xs\<close> with the entry appended at its end;
  when the entry is in \<open>xs\<close>, \<open>add\<close> returns and the store is untouched. Consequently, if
  \<open>xs\<close> is well formed, then after any sequence of \<open>add\<close> calls (rejected ones included)
  the list is still well formed and holds at most one entry for every pair of a symbol and
  an actor.
\<close>

theorem Reactions_add_appends_once:
  assumes "backing_items s (entity w) ReactionsComponent = Some xs"
  shows "(\<not> includes_space r \<and> \<not> includes_space a \<and> r @ '' '' @ a \<notin> set xs \<longrightarrow>
            fst (Reactions_add r a w s) = Inr ()
            \<and> backing_items (snd (Reactions_add r a w s)) (entity w) ReactionsComponent
                = Some (xs @ [r @ '' '' @ a]))
       \<and> (\<not> includes_space r \<and> \<not> includes_space a \<and> r @ '' '' @ a \<in> set xs \<longrightarrow>
            Reactions_add r a w s = (Inr (), s))
       \<and> (well_formed xs \<longrightarrow>
            (\<exists>ys. backing_items (add_all calls w s) (entity w) ReactionsComponent = Some ys
               \<and> well_formed ys \<and> (\<forall>r' a'. entries_for r' a' ys \<le> 1)))"
proof -
  have "\<exists>ys. backing_items (add_all calls w s) (entity w) ReactionsComponent = Some ys
               \<and> well_formed ys \<and> (\<forall>r' a'. entries_for r' a' ys \<le> 1)" if "well_formed xs"
    using add_all_well_formed[OF assms that, of calls] well_formed_entries_for by blast
  then show ?thesis
    by (simp add: Reactions_add_eq[OF assms] backing_items_set_items[OF assms])
qed

text \<open>
  A message that holds one reaction: a new pair is appended, the pair it holds is not
  added again, and four calls, one of them rejected, leave two entries.
\<close>

theorem Reactions_add_appends_once_witness:
  "backing_items (no_components(''msg'' := [comp_id ReactionsComponent \<mapsto> LoroList [''+1 did:a'']]))
       ''msg'' ReactionsComponent = Some [''+1 did:a'']
   \<and> well_formed [''+1 did:a'']
   \<and> backing_items
        (snd (Reactions_add ''+1'' ''did:b'' \<lparr>kind = Reactions, peer = 0, entity = ''msg''\<rparr>
           (no_components(''msg'' := [comp_id ReactionsComponent \<mapsto> LoroList [''+1 did:a'']]))))
        ''msg'' ReactionsComponent = Some [''+1 did:a'', ''+1 did:b'']
   \<and> Reactions_add ''+1'' ''did:a'' \<lparr>kind = Reactions, peer = 0, entity = ''msg''\<rparr>
        (no_components(''msg'' := [comp_id ReactionsComponent \<mapsto> LoroList [''+1 did:a'']]))
      = (Inr (), no_components(''msg'' := [comp_id ReactionsComponent \<mapsto> LoroList [''+1 did:a'']]))
   \<and> (\<exists>ys. backing_items
          (add_all [(''+1'', ''did:a''), (''+1'', ''did:b''), (''+1 x'', ''did:c''), (''+1'', ''did:b'')]
             \<lparr>kind = Reactions, peer = 0, entity = ''msg''\<rparr>
             (no_components(''msg'' := [comp_id ReactionsComponent \<mapsto> LoroList [''+1 did:a'']])))
          ''msg'' ReactionsComponent = Some ys
        \<and> well_formed ys \<and> entries_for ''+1'' ''did:b'' ys \<le> 1)"
proof -
  have b: "backing_items (no_components(''msg'' := [comp_id ReactionsComponent \<mapsto> LoroList [''+1 did:a'']]))
       (entity \<lparr>kind = Reactions, peer = 0, entity = ''msg''\<rparr>) ReactionsComponent = Some [''+1 did:a'']"
    by (simp add: backing_items_def backing_def)
  have wf: "well_formed [''+1 did:a'']"
    by (simp add: well_formed_def)
  have sp: "\<not> includes_space ''+1''" "\<not> includes_space ''did:a''" "\<not> includes_space ''did:b''"
    by (simp_all add: includes_space_def)
  show ?thesis
    using b wf sp
      Reactions_add_appends_once[OF b, of "''+1''" "''did:b''"
        "[(''+1'', ''did:a''), (''+1'', ''did:b''), (''+1 x'', ''did:c''), (''+1'', ''did:b'')]"]
      Reactions_add_appends_once[OF b, of "''+1''" "''did:a''" "[]"]
    by auto
qed

subsection \<open>Reactions: reading\<close>

lemma grouped_Nil [simp]: "grouped d [] k = None"
  by (simp add: grouped_def)

lemma grouped_Cons:
  "grouped d (raw # rest) k =
     (if fst (d raw) = k
      then Some (insert (snd (d raw)) (case grouped d rest k of None \<Rightarrow> {} | Some U \<Rightarrow> U))
      else grouped d rest k)"
  by (cases "filter (\<lambda>p. fst p = k) (map d rest)") (simp_all add: grouped_def Let_def)

lemma all_loop_grouped:
  "\<forall>raw\<in>set list. fst (destructure raw) \<notin> inh \<Longrightarrow>
   all_loop inh m list =
     Inr (\<lambda>k. case grouped destructure list k of
                None \<Rightarrow> m k
              | Some U \<Rightarrow> Some (U \<union> (case m k of None \<Rightarrow> {} | Some V \<Rightarrow> V)))"
proof (induction list arbitrary: m)
  case Nil
  then show ?case by simp
next
  case (Cons raw rest)
  obtain r u where d: "destructure raw = (r, u)" by (cases "destructure raw")
  from Cons.prems have rest: "\<forall>raw\<in>set rest. fst (destructure raw) \<notin> inh" and r: "r \<notin> inh"
    using d by auto
  let ?m' = "m(r \<mapsto> insert u (case m r of None \<Rightarrow> {} | Some V \<Rightarrow> V))"
  have "all_loop inh m (raw # rest) = all_loop inh ?m' rest"
    using r d by (cases "m r") simp_all
  also have "\<dots> = Inr (\<lambda>k. case grouped destructure rest k of
                None \<Rightarrow> ?m' k
              | Some U \<Rightarrow> Some (U \<union> (case ?m' k of None \<Rightarrow> {} | Some V \<Rightarrow> V)))"
    by (rule Cons.IH[OF rest])
  also have "(\<lambda>k. case grouped destructure rest k of
                None \<Rightarrow> ?m' k
              | Some U \<Rightarrow> Some (U \<union> (case ?m' k of None \<Rightarrow> {} | Some V \<Rightarrow> V)))
      = (\<lambda>k. case grouped destructure (raw # rest) k of
                None \<Rightarrow> m k
              | Some U \<Rightarrow> Some (U \<union> (case m k of None \<Rightarrow> {} | Some V \<Rightarrow> V)))"
  proof (rule ext)
    fix k
    show "(case grouped destructure rest k of
                None \<Rightarrow> ?m' k
              | Some U \<Rightarrow> Some (U \<union> (case ?m' k of None \<Rightarrow> {} | Some V \<Rightarrow> V)))
      = (case grouped destructure (raw # rest) k of
                None \<Rightarrow> m k
              | Some U \<Rightarrow> Some (U \<union> (case m k of None \<Rightarrow> {} | Some V \<Rightarrow> V)))"
      by (cases "r = k"; cases "grouped destructure rest k"; cases "m k")
         (auto simp: grouped_Cons d)
  qed
  finally show ?case .
qed

lemma Reactions_all_eq:
  assumes "backing_items s (entity w) ReactionsComponent = Some list"
      and "\<forall>raw\<in>set list. fst (destructure raw) \<notin> inherited"
  shows "Reactions_all inherited w s =
     (Inr (grouped destructure list), materialized (entity w) ReactionsComponent s)"
proof -
  have "all_loop inherited Map.empty list = Inr (grouped destructure list)"
    by (simp add: all_loop_grouped[OF assms(2)] fun_eq_iff split: option.splits)
  then show ?thesis
    using assms(1)
    by (simp add: Reactions_all_def bind_def getOrInit_eq toArray_def backing_items_def)
qed

lemma destructure_free: "\<not> includes_space r \<Longrightarrow> destructure r = (r, None)"
  by (simp add: destructure_def split_space_free)

lemma destructure_two:
  "\<not> includes_space r \<Longrightarrow> \<not> includes_space a \<Longrightarrow> destructure (r @ '' '' @ a) = (r, Some a)"
  by (simp add: destructure_def split_space_append split_space_free)

lemma destructure_more:
  "\<not> includes_space r \<Longrightarrow> \<not> includes_space a \<Longrightarrow>
   destructure (r @ '' '' @ a @ '' '' @ rest) = (r, Some a)"
  by (cases "split_space rest") (simp_all add: destructure_def split_space_append)

text \<open>
  C8, as the claim states it, fails. The claim reports the full suffix after the first
  space as the actor. For the entry \<open>a b c\<close> the code reports the actor \<open>b\<close>: it splits
  at every space and keeps the first two pieces. The decoding in the claim's words gives
  the actor \<open>b c\<close>.
\<close>

theorem Reactions_all_suffix_counterexample:
  "actors_reported
      (Reactions_all {} \<lparr>kind = Reactions, peer = 0, entity = ''msg''\<rparr>
         (no_components(''msg'' := [comp_id ReactionsComponent \<mapsto> LoroList [''a b c'']]))) ''a''
     = Some {Some ''b''}
   \<and> grouped split_at_first_space [''a b c''] ''a'' = Some {Some ''b c''}"
  by (simp add: actors_reported_def Reactions_all_def bind_def getOrInit_eq toArray_def
      materialized_def backing_def destructure_def grouped_def split_at_first_space_def)

text \<open>
  C8, amended. On an entity whose reactions component is a list (or absent), and when no
  entry's first piece is a property name that the result object inherits,
  \<open>Reactions.all\<close> returns the mapping from each symbol to the set of its actors, where
  an entry is decoded by cutting it at every space: the symbol is the first piece and the
  actor the second piece. So an entry without a space has a symbol and no actor, an entry
  \<open>symbol actor\<close> of two space-free strings decodes to that pair (the actor is then all
  that follows the first space), and what follows a second space is dropped.
\<close>

theorem Reactions_all_groups_first_two_pieces:
  assumes "backing_items s (entity w) ReactionsComponent = Some list"
      and "\<forall>raw\<in>set list. fst (destructure raw) \<notin> inherited"
  shows "Reactions_all inherited w s =
           (Inr (grouped destructure list), materialized (entity w) ReactionsComponent s)
     \<and> (\<not> includes_space r \<longrightarrow> destructure r = (r, None))
     \<and> (\<not> includes_space r \<and> \<not> includes_space a \<longrightarrow>
          destructure (r @ '' '' @ a) = (r, Some a)
          \<and> destructure (r @ '' '' @ a @ '' '' @ rest) = (r, Some a))"
  using Reactions_all_eq[OF assms] destructure_free[of r] destructure_two[of r a]
    destructure_more[of r a rest]
  by simp

text \<open>
  Three well-formed entries and one with two spaces, read on a runtime where a plain
  object inherits \<open>constructor\<close>, \<open>toString\<close> and \<open>__proto__\<close>.
\<close>

theorem Reactions_all_groups_first_two_pieces_witness:
  "backing_items
      (no_components(''msg'' := [comp_id ReactionsComponent \<mapsto>
          LoroList [''+1 did:a'', ''+1 did:b'', ''heart did:a'', ''a b c'']]))
      ''msg'' ReactionsComponent
     = Some [''+1 did:a'', ''+1 did:b'', ''heart did:a'', ''a b c'']
   \<and> fst (Reactions_all {''constructor'', ''toString'', ''__proto__''}
        \<lparr>kind = Reactions, peer = 0, entity = ''msg''\<rparr>
        (no_components(''msg'' := [comp_id ReactionsComponent \<mapsto>
            LoroList [''+1 did:a'', ''+1 did:b'', ''heart did:a'', ''a b c'']])))
     = Inr (grouped destructure [''+1 did:a'', ''+1 did:b'', ''heart did:a'', ''a b c''])
   \<and> grouped destructure [''+1 did:a'', ''+1 did:b'', ''heart did:a'', ''a b c''] ''+1''
     = Some {Some ''did:a'', Some ''did:b''}
   \<and> grouped destructure [''+1 did:a'', ''+1 did:b'', ''heart did:a'', ''a b c''] ''a''
     = Some {Some ''b''}
   \<and> \<not> includes_space ''+1'' \<and> \<not> includes_space ''did:a''
   \<and> destructure ''+1'' = (''+1'', None)
   \<and> destructure ''+1 did:a'' = (''+1'', Some ''did:a'')"
proof -
  have b: "backing_items
      (no_components(''msg'' := [comp_id ReactionsComponent \<mapsto>
          LoroList [''+1 did:a'', ''+1 did:b'', ''heart did:a'', ''a b c'']]))
      (entity \<lparr>kind = Reactions, peer = 0, entity = ''msg''\<rparr>) ReactionsComponent
     = Some [''+1 did:a'', ''+1 did:b'', ''heart did:a'', ''a b c'']"
    by (simp add: backing_items_def backing_def)
  have i: "\<forall>raw\<in>set [''+1 did:a'', ''+1 did:b'', ''heart did:a'', ''a b c''].
      fst (destructure raw) \<notin> {''constructor'', ''toString'', ''__proto__''}"
    by (simp add: destructure_def)
  have sp: "\<not> includes_space ''+1''" "\<not> includes_space ''did:a''"
    by (simp_all add: includes_space_def)
  have g: "grouped destructure [''+1 did:a'', ''+1 did:b'', ''heart did:a'', ''a b c''] ''+1''
       = Some {Some ''did:a'', Some ''did:b''}"
    "grouped destructure [''+1 did:a'', ''+1 did:b'', ''heart did:a'', ''a b c''] ''a''
       = Some {Some ''b''}"
    by (simp_all add: grouped_def destructure_def)
  show ?thesis
    using b sp g Reactions_all_groups_first_two_pieces[OF b i, of "''+1''" "''did:a''" "[]"]
    by simp
qed

subsection \<open>Administered entities\<close>

lemma appendAdminsFrom_loop_eq:
  "s (entity w) (comp_id Admins) = Some c \<Longrightarrow> list_items c = Some zs \<Longrightarrow>
   appendAdminsFrom_loop w cur ys s =
     (Inr (), s(entity w := (s (entity w))(comp_id Admins \<mapsto>
                 with_items (zs @ filter (\<lambda>a. a \<notin> set cur) ys) c)))"
proof (induction ys arbitrary: s c zs)
  case Nil
  then show ?case by (simp add: with_items_same map_upd_triv)
next
  case (Cons admin rest)
  show ?case
  proof (cases "admin \<in> set cur")
    case True
    then show ?thesis using Cons by simp
  next
    case False
    let ?s' = "s(entity w := (s (entity w))(comp_id Admins \<mapsto> with_items (zs @ [admin]) c))"
    have step: "bind (admins w) (\<lambda>r. push r admin) s = (Inr (), ?s')"
      using Cons.prems
      by (simp add: bind_def admins_def getOrInit_eq materialized_present push_def set_items_present)
    have "appendAdminsFrom_loop w cur (admin # rest) s = appendAdminsFrom_loop w cur rest ?s'"
      using False by (simp add: step)
    also have "\<dots> =
       (Inr (), ?s'(entity w := (?s' (entity w))(comp_id Admins \<mapsto>
           with_items ((zs @ [admin]) @ filter (\<lambda>a. a \<notin> set cur) rest)
             (with_items (zs @ [admin]) c))))"
      by (rule Cons.IH) (simp_all add: list_items_with_items[OF Cons.prems(2)])
    also have "\<dots> = (Inr (), s(entity w := (s (entity w))(comp_id Admins \<mapsto>
                 with_items (zs @ filter (\<lambda>a. a \<notin> set cur) (admin # rest)) c)))"
      using False by simp
    finally show ?thesis .
  qed
qed

text \<open>
  What \<open>appendAdminsFrom\<close> computes, for any two entities, the same one included: the
  prior list followed by every entry of the other list that is not in the prior list,
  repetitions kept.
\<close>

lemma appendAdminsFrom_result:
  assumes "backing_items s (entity this) Admins = Some xs"
      and "backing_items s (entity other) Admins = Some ys"
  shows "fst (appendAdminsFrom this other s) = Inr ()
     \<and> backing_items (snd (appendAdminsFrom this other s)) (entity this) Admins
         = Some (xs @ filter (\<lambda>a. a \<notin> set xs) ys)"
proof -
  let ?s1 = "materialized (entity this) Admins s"
  let ?s2 = "materialized (entity other) Admins ?s1"
  have b1: "backing_items ?s1 (entity this) Admins = Some xs"
    using assms(1) by (simp add: backing_items_def)
  have b2: "backing_items ?s1 (entity other) Admins = Some ys"
    using assms by (cases "entity other = entity this")
      (auto simp: backing_items_def backing_def materialized_def)
  have p: "?s2 (entity this) (comp_id Admins) = Some (backing s (entity this) Admins)"
    by (cases "entity other = entity this") (auto simp: materialized_def backing_def)
  have li: "list_items (backing s (entity this) Admins) = Some xs"
    using assms(1) by (simp add: backing_items_def)
  have t1: "toArray (entity this, comp_id Admins) ?s1 = (Inr xs, ?s1)"
    using b1 by (simp add: toArray_def backing_items_def)
  have t2: "toArray (entity other, comp_id Admins) ?s2 = (Inr ys, ?s2)"
    using b2 by (simp add: toArray_def backing_items_def)
  have run: "appendAdminsFrom this other s =
      (Inr (), ?s2(entity this := (?s2 (entity this))(comp_id Admins \<mapsto>
          with_items (xs @ filter (\<lambda>a. a \<notin> set xs) ys) (backing s (entity this) Admins))))"
    by (simp add: appendAdminsFrom_def bind_def admins_def getOrInit_eq t1 t2
        appendAdminsFrom_loop_eq[where w = this and s = ?s2, OF p li])
  show ?thesis
    unfolding run backing_items_def
    by (simp add: backing_update list_items_with_items[OF li])
qed

lemma first_occurrences_distinct: "distinct xs \<Longrightarrow> first_occurrences xs = xs"
  by (induction xs) (auto simp: filter_id_conv)

lemma appendAdminsFrom_distinct_source:
  assumes "backing_items s (entity this) Admins = Some xs"
      and "backing_items s (entity other) Admins = Some ys"
      and "distinct ys"
  shows "backing_items (snd (appendAdminsFrom this other s)) (entity this) Admins
         = Some (xs @ first_occurrences (filter (\<lambda>a. a \<notin> set xs) ys))"
  using appendAdminsFrom_result[OF assms(1,2)] assms(3)
  by (simp add: first_occurrences_distinct)

text \<open>
  C7. The claim asks that the identifiers added from the other entity appear exactly once
  each, also when the other list repeats an identifier. The loop tests every identifier
  against the array taken before the loop, so a repeated new identifier is pushed each
  time it occurs: with \<open>x\<close> as the admins of \<open>A\<close> and \<open>z, z\<close> as those of \<open>B\<close>, the
  admins of \<open>A\<close> end as \<open>x, z, z\<close>, where the claim gives \<open>x, z\<close>.
\<close>

theorem appendAdminsFrom_repeats_new_admin:
  "backing_items
      (snd (appendAdminsFrom \<lparr>kind = Space, peer = 0, entity = ''A''\<rparr>
              \<lparr>kind = Space, peer = 0, entity = ''B''\<rparr>
              (no_components(''A'' := [comp_id Admins \<mapsto> LoroMovableList [''x'']],
                             ''B'' := [comp_id Admins \<mapsto> LoroMovableList [''z'', ''z'']]))))
      ''A'' Admins = Some [''x'', ''z'', ''z'']
   \<and> [''x''] @ first_occurrences (filter (\<lambda>a. a \<notin> set [''x'']) [''z'', ''z'']) = [''x'', ''z'']"
  by (simp add: appendAdminsFrom_def bind_def admins_def getOrInit_eq toArray_def push_def
      set_items_def materialized_def backing_def backing_items_def)

subsection \<open>The catalog's identifiers\<close>

text \<open>
  C2. The claim asks that all schemas of the catalog have pairwise distinct identifiers,
  so that \<open>Images\<close> and \<open>Spaces\<close> never share stored data. The catalog breaks it:
  \<open>Images\<close> and \<open>Spaces\<close> are both declared under
  \<^verbatim>\<open>spaces:01JPE97AYAJSDP0NRAH79S9792\<close>, the identifiers of the catalog are not
  distinct, and an image pushed on the \<open>images\<close> list of an entity shows up in the
  \<open>spaces\<close> list of that entity.
\<close>

theorem images_spaces_share_identifier:
  "comp_id Images = comp_id Spaces \<and> \<not> distinct catalog_ids
   \<and> fst (EntityList_ids (Roomy_spaces \<lparr>kind = Roomy, peer = 0, entity = ''e''\<rparr>)
        (snd (EntityList_push (Message_images \<lparr>kind = Message, peer = 0, entity = ''e''\<rparr>)
                \<lparr>kind = Image, peer = 0, entity = ''img''\<rparr> no_components)))
     = Inr [''img'']"
  by (simp add: catalog_ids_def catalog_def Images_def Spaces_def BasicMeta_def ReplyTo_def
      SoftDeleted_def ImageUri_def Collection_def Channels_def Threads_def Messages_def
      AuthorUris_def Content_def SpaceSidebarNavigation_def Admins_def ReactionsComponent_def
      ChannelAnnouncement_def defComponent_def defComponentInit_def
      ids_eq EntityList_push_def bind_def getOrInit_eq Roomy_spaces_def Message_images_def
      new_EntityList_def push_def set_items_def backing_items_def backing_def materialized_def
      fresh_def no_components_def)

end
